theory Spec2Isabelle
  imports Main
begin

section \<open>Python values and exceptions\<close>

text \<open>
  The toolkit \<^verbatim>\<open>ElasticsearchToolkit\<close> of
  \<^verbatim>\<open>owl/camel/toolkits/elasticsearch_toolkit.py\<close> moves JSON-like values between
  its caller and the Elasticsearch client. A \<^verbatim>\<open>Dict[str, Any]\<close> is an association
  list in insertion order.
\<close>

datatype pyval =
    PNone
  | PBool bool
  | PInt int
  | PStr string
  | PList "pyval list"
  | PDict "(string \<times> pyval) list"

type_synonym dict = "(string \<times> pyval) list"

text \<open>
  A raised object is described by what the code observes of it: the names of the classes
  in the method resolution order of its class, which decide whether an \<^verbatim>\<open>except\<close>
  clause matches, and what \<^verbatim>\<open>str(e)\<close> does. \<^verbatim>\<open>str(e)\<close> runs the
  \<^verbatim>\<open>__str__\<close> method of the class, which either gives a text (\<open>Inr\<close>) or raises an
  exception of its own (\<open>Inl\<close>); a \<^verbatim>\<open>__str__\<close> that returns something other than a
  string makes \<^verbatim>\<open>str\<close> raise \<^verbatim>\<open>TypeError\<close> and falls under \<open>Inl\<close> as well.
  Applied again to the same exception, \<^verbatim>\<open>str\<close> does the same again.
\<close>

datatype py_exception =
  PyException (exc_mro: "string list") (exc_str: "py_exception + string")

definition isinstance_Exception :: "py_exception \<Rightarrow> bool" where
  "isinstance_Exception e = (''Exception'' \<in> set (exc_mro e))"

definition str :: "py_exception \<Rightarrow> py_exception + string" where
  "str e = exc_str e"






section \<open>The collaborators: environment, logger, Elasticsearch client\<close>

text \<open>\<^verbatim>\<open>os.environ\<close>, read by \<^verbatim>\<open>os.getenv\<close> with and without a default.\<close>

type_synonym env = "string \<rightharpoonup> string"

definition getenv :: "env \<Rightarrow> string \<Rightarrow> string option" where
  "getenv env k = env k"

definition getenv_default :: "env \<Rightarrow> string \<Rightarrow> string \<Rightarrow> string" where
  "getenv_default env k d = (case env k of None \<Rightarrow> d | Some v \<Rightarrow> v)"

text \<open>
  The client object that \<^verbatim>\<open>Elasticsearch(hosts, http_auth=...)\<close> returns keeps the
  arguments it was built from.
\<close>

type_synonym http_auth = "string option \<times> string option"

record es_client =
  es_hosts :: "string list"
  es_http_auth :: http_auth

text \<open>The four client methods the toolkit calls, with the keyword arguments they get.\<close>

datatype api_call =
    Api_search string dict
  | Api_index string "string option" dict
  | Api_cluster_health
  | Api_cluster_stats

datatype event =
    Construct "string list" http_auth
  | Call es_client api_call

datatype outcome = Returns dict | Raises py_exception

text \<open>
  The client library and the cluster behind it are opaque. What they answer may depend on
  everything the process has asked of them so far, so a behaviour is a function of the
  history of requests: \<open>on_construct\<close> says whether the constructor raises, \<open>on_call\<close>
  what a method call returns or raises.
\<close>

record collaborator =
  on_construct :: "event list \<Rightarrow> string list \<Rightarrow> http_auth \<Rightarrow> py_exception option"
  on_call :: "event list \<Rightarrow> es_client \<Rightarrow> api_call \<Rightarrow> outcome"

text \<open>
  The \<^verbatim>\<open>loguru\<close> logger takes a message and returns nothing. A record has one
  constructor per \<^verbatim>\<open>logger\<close> call of the source and holds the values that the call
  formats into its message.
\<close>

datatype log_record =
    Debug_search string dict
  | Error_search string
  | Debug_index string "string option" dict
  | Error_index string
  | Debug_cluster_health
  | Error_cluster_health string
  | Debug_cluster_stats
  | Error_cluster_stats string

record world =
  events :: "event list"
  logged :: "log_record list"

definition logger :: "log_record \<Rightarrow> world \<Rightarrow> world" where
  "logger r w = w\<lparr>logged := logged w @ [r]\<rparr>"

definition Elasticsearch ::
  "collaborator \<Rightarrow> string list \<Rightarrow> http_auth \<Rightarrow> world \<Rightarrow> (py_exception + es_client) \<times> world" where
  "Elasticsearch col hs auth w =
     ((case on_construct col (events w) hs auth of
         Some e \<Rightarrow> Inl e
       | None \<Rightarrow> Inr \<lparr>es_hosts = hs, es_http_auth = auth\<rparr>),
      w\<lparr>events := events w @ [Construct hs auth]\<rparr>)"

definition client_call ::
  "collaborator \<Rightarrow> es_client \<Rightarrow> api_call \<Rightarrow> world \<Rightarrow> outcome \<times> world" where
  "client_call col c a w =
     (on_call col (events w) c a, w\<lparr>events := events w @ [Call c a]\<rparr>)"

section \<open>The toolkit\<close>

record toolkit =
  hosts :: "string list"
  username :: "string option"
  password :: "string option"
  client :: es_client

subsection \<open>Construction\<close>

text \<open>
  Lines 17 to 19 of \<^verbatim>\<open>__init__\<close>. Python's \<^verbatim>\<open>a or b\<close> is \<^verbatim>\<open>a\<close> when
  \<^verbatim>\<open>a\<close> is truthy, which for an optional list or string means present and not empty.
\<close>

definition init_hosts :: "env \<Rightarrow> string list option \<Rightarrow> string list" where
  "init_hosts env hosts_arg =
     (case hosts_arg of
        Some (h # hs) \<Rightarrow> h # hs
      | _ \<Rightarrow> [getenv_default env ''ELASTICSEARCH_HOST'' ''https://localhost:9200''])"

definition init_username :: "env \<Rightarrow> string option \<Rightarrow> string option" where
  "init_username env username_arg =
     (case username_arg of
        Some (c # cs) \<Rightarrow> Some (c # cs)
      | _ \<Rightarrow> getenv env ''ELASTICSEARCH_USERNAME'')"

definition init_password :: "env \<Rightarrow> string option \<Rightarrow> string option" where
  "init_password env password_arg =
     (case password_arg of
        Some (c # cs) \<Rightarrow> Some (c # cs)
      | _ \<Rightarrow> getenv env ''ELASTICSEARCH_PASSWORD'')"

text \<open>
  \<^verbatim>\<open>__init__\<close>: the call of the client's constructor on line 20 is not guarded, so
  what it raises leaves the constructor (\<open>Inl\<close>) and no toolkit exists.
\<close>

definition init ::
  "collaborator \<Rightarrow> env \<Rightarrow> string list option \<Rightarrow> string option \<Rightarrow> string option \<Rightarrow> world
     \<Rightarrow> (py_exception + toolkit) \<times> world" where
  "init col env hosts_arg username_arg password_arg w =
     (let h = init_hosts env hosts_arg;
          u = init_username env username_arg;
          p = init_password env password_arg;
          (r, w') = Elasticsearch col h (u, p) w
      in case r of
           Inl e \<Rightarrow> (Inl e, w')
         | Inr c \<Rightarrow> (Inr \<lparr>hosts = h, username = u, password = p, client = c\<rparr>, w'))"

subsection \<open>Operations\<close>

text \<open>
  Every operation takes the toolkit and the world and gives back its result, the toolkit
  and the world after it. \<open>Inr\<close> is a returned mapping, \<open>Inl\<close> an exception that leaves
  the method. \<^verbatim>\<open>except Exception\<close> matches the instances of \<^verbatim>\<open>Exception\<close> only.
  Inside the handler nothing is guarded: the f-string of the \<^verbatim>\<open>logger.error\<close> call
  formats \<^verbatim>\<open>e\<close>, which runs \<^verbatim>\<open>str(e)\<close>, and the \<^verbatim>\<open>return\<close> statement runs
  \<^verbatim>\<open>str(e)\<close> again; what either raises leaves the method.
\<close>

definition error_mapping :: "string \<Rightarrow> dict" where
  "error_mapping s = [(''error'', PStr s)]"

definition search ::
  "collaborator \<Rightarrow> toolkit \<Rightarrow> string \<Rightarrow> dict \<Rightarrow> world
     \<Rightarrow> (py_exception + dict) \<times> toolkit \<times> world" where
  "search col self index query w =
     (let w1 = logger (Debug_search index query) w;
          (r, w2) = client_call col (client self) (Api_search index query) w1
      in case r of
           Returns response \<Rightarrow> (Inr response, self, w2)
         | Raises e \<Rightarrow>
             if isinstance_Exception e
             then (case str e of
                     Inl e' \<Rightarrow> (Inl e', self, w2)
                   | Inr msg \<Rightarrow>
                       (let w3 = logger (Error_search msg) w2
                        in case str e of
                             Inl e' \<Rightarrow> (Inl e', self, w3)
                           | Inr s \<Rightarrow> (Inr (error_mapping s), self, w3)))
             else (Inl e, self, w2))"

definition index_document ::
  "collaborator \<Rightarrow> toolkit \<Rightarrow> string \<Rightarrow> dict \<Rightarrow> string option \<Rightarrow> world
     \<Rightarrow> (py_exception + dict) \<times> toolkit \<times> world" where
  "index_document col self index document doc_id w =
     (let w1 = logger (Debug_index index doc_id document) w;
          (r, w2) = client_call col (client self) (Api_index index doc_id document) w1
      in case r of
           Returns response \<Rightarrow> (Inr response, self, w2)
         | Raises e \<Rightarrow>
             if isinstance_Exception e
             then (case str e of
                     Inl e' \<Rightarrow> (Inl e', self, w2)
                   | Inr msg \<Rightarrow>
                       (let w3 = logger (Error_index msg) w2
                        in case str e of
                             Inl e' \<Rightarrow> (Inl e', self, w3)
                           | Inr s \<Rightarrow> (Inr (error_mapping s), self, w3)))
             else (Inl e, self, w2))"

definition cluster_health ::
  "collaborator \<Rightarrow> toolkit \<Rightarrow> world \<Rightarrow> (py_exception + dict) \<times> toolkit \<times> world" where
  "cluster_health col self w =
     (let w1 = logger Debug_cluster_health w;
          (r, w2) = client_call col (client self) Api_cluster_health w1
      in case r of
           Returns response \<Rightarrow> (Inr response, self, w2)
         | Raises e \<Rightarrow>
             if isinstance_Exception e
             then (case str e of
                     Inl e' \<Rightarrow> (Inl e', self, w2)
                   | Inr msg \<Rightarrow>
                       (let w3 = logger (Error_cluster_health msg) w2
                        in case str e of
                             Inl e' \<Rightarrow> (Inl e', self, w3)
                           | Inr s \<Rightarrow> (Inr (error_mapping s), self, w3)))
             else (Inl e, self, w2))"

definition cluster_stats ::
  "collaborator \<Rightarrow> toolkit \<Rightarrow> world \<Rightarrow> (py_exception + dict) \<times> toolkit \<times> world" where
  "cluster_stats col self w =
     (let w1 = logger Debug_cluster_stats w;
          (r, w2) = client_call col (client self) Api_cluster_stats w1
      in case r of
           Returns response \<Rightarrow> (Inr response, self, w2)
         | Raises e \<Rightarrow>
             if isinstance_Exception e
             then (case str e of
                     Inl e' \<Rightarrow> (Inl e', self, w2)
                   | Inr msg \<Rightarrow>
                       (let w3 = logger (Error_cluster_stats msg) w2
                        in case str e of
                             Inl e' \<Rightarrow> (Inl e', self, w3)
                           | Inr s \<Rightarrow> (Inr (error_mapping s), self, w3)))
             else (Inl e, self, w2))"

subsection \<open>Tool descriptors\<close>

datatype operation = M_search | M_index_document | M_cluster_health | M_cluster_stats

fun method_name :: "operation \<Rightarrow> string" where
  "method_name M_search = ''search''"
| "method_name M_index_document = ''index_document''"
| "method_name M_cluster_health = ''cluster_health''"
| "method_name M_cluster_stats = ''cluster_stats''"

text \<open>A bound method \<^verbatim>\<open>self.m\<close>: the instance and the function.\<close>

record bound_method =
  bm_self :: toolkit
  bm_func :: operation

record function_tool =
  ft_func :: bound_method
  ft_name :: string

text \<open>
  Modelled from the spec: the class \<^verbatim>\<open>FunctionTool\<close> of \<^verbatim>\<open>camel.toolkits\<close> is
  imported, not defined, by the source file. The specification describes a tool
  descriptor as an entry "wrapping a callable with its name/signature/docstring"; the
  model keeps the callable and its name.
\<close>

definition FunctionTool :: "bound_method \<Rightarrow> function_tool" where
  "FunctionTool f = \<lparr>ft_func = f, ft_name = method_name (bm_func f)\<rparr>"

definition get_tools :: "toolkit \<Rightarrow> world \<Rightarrow> function_tool list \<times> toolkit \<times> world" where
  "get_tools self w =
     ([FunctionTool \<lparr>bm_self = self, bm_func = M_search\<rparr>,
       FunctionTool \<lparr>bm_self = self, bm_func = M_index_document\<rparr>,
       FunctionTool \<lparr>bm_self = self, bm_func = M_cluster_health\<rparr>,
       FunctionTool \<lparr>bm_self = self, bm_func = M_cluster_stats\<rparr>],
      self, w)"

section \<open>Properties that the claims are stated with\<close>



text \<open>How many times the client's constructor has been called.\<close>

fun is_Call :: "event \<Rightarrow> bool" where
  "is_Call (Call c a) = True"
| "is_Call (Construct hs auth) = False"

definition constructions :: "event list \<Rightarrow> nat" where
  "constructions evs = length (filter (\<lambda>ev. \<not> is_Call ev) evs)"

section \<open>Concrete collaborators and inputs\<close>

definition world0 :: world where
  "world0 = \<lparr>events = [], logged = []\<rparr>"

definition match_all_query :: dict where
  "match_all_query = [(''query'', PDict [(''match_all'', PDict [])])]"

definition no_hits :: dict where
  "no_hits = [(''hits'', PDict [(''total'', PInt 0)])]"

text \<open>Two documents that differ.\<close>

definition doc_a :: dict where
  "doc_a = [(''title'', PStr ''a'')]"

definition doc_b :: dict where
  "doc_b = [(''title'', PStr ''b'')]"

text \<open>A stub whose constructor succeeds and whose every method returns \<open>r\<close>.\<close>

definition stub_returning :: "dict \<Rightarrow> collaborator" where
  "stub_returning r =
     \<lparr>on_construct = (\<lambda>past hs auth. None), on_call = (\<lambda>past c a. Returns r)\<rparr>"


text \<open>
  A stub that answers an index request with \<^verbatim>\<open>created\<close> the first time and with
  \<^verbatim>\<open>updated\<close> once a method has been called before; other requests get an empty
  mapping.
\<close>

definition stub_upsert :: collaborator where
  "stub_upsert =
     \<lparr>on_construct = (\<lambda>past hs auth. None),
      on_call = (\<lambda>past c a.
        case a of
          Api_index i d b \<Rightarrow>
            Returns [(''result'', PStr (if list_ex is_Call past then ''updated'' else ''created''))]
        | _ \<Rightarrow> Returns [])\<rparr>"

text \<open>
  The toolkit built by \<^verbatim>\<open>ElasticsearchToolkit(hosts=["http://localhost:9200"])\<close>
  in an empty environment, and the world after its construction.
\<close>

definition local_toolkit :: toolkit where
  "local_toolkit =
     \<lparr>hosts = [''http://localhost:9200''], username = None, password = None,
      client = \<lparr>es_hosts = [''http://localhost:9200''], es_http_auth = (None, None)\<rparr>\<rparr>"

definition local_world :: world where
  "local_world = \<lparr>events = [Construct [''http://localhost:9200''] (None, None)], logged = []\<rparr>"

text \<open>An environment with the three variables set.\<close>

definition env_set :: env where
  "env_set =
     [''ELASTICSEARCH_HOST'' \<mapsto> ''http://env:9200'',
      ''ELASTICSEARCH_USERNAME'' \<mapsto> ''elastic'',
      ''ELASTICSEARCH_PASSWORD'' \<mapsto> ''changeme'']"

section \<open>Basic facts\<close>

lemma events_logger: "events (logger r w) = events w"
  by (simp add: logger_def)

lemma init_eq:
  "init col env hosts_arg username_arg password_arg w =
     ((case on_construct col (events w) (init_hosts env hosts_arg)
              (init_username env username_arg, init_password env password_arg) of
         Some e \<Rightarrow> Inl e
       | None \<Rightarrow>
           Inr \<lparr>hosts = init_hosts env hosts_arg,
                username = init_username env username_arg,
                password = init_password env password_arg,
                client = \<lparr>es_hosts = init_hosts env hosts_arg,
                           es_http_auth = (init_username env username_arg,
                                           init_password env password_arg)\<rparr>\<rparr>),
      w\<lparr>events := events w @
           [Construct (init_hosts env hosts_arg)
              (init_username env username_arg, init_password env password_arg)]\<rparr>)"
  by (simp add: init_def Elasticsearch_def Let_def split: option.splits)

lemma init_local:
  "init (stub_returning r) Map.empty (Some [''http://localhost:9200'']) None None world0 =
     (Inr local_toolkit, local_world)"
  by (simp add: init_eq init_hosts_def init_username_def init_password_def getenv_def
      stub_returning_def world0_def local_toolkit_def local_world_def)

lemma init_fields:
  assumes "fst (init col env hosts_arg username_arg password_arg w) = Inr tk"
  shows "hosts tk = init_hosts env hosts_arg"
    and "username tk = init_username env username_arg"
    and "password tk = init_password env password_arg"
    and "client tk = \<lparr>es_hosts = hosts tk, es_http_auth = (username tk, password tk)\<rparr>"
  using assms by (auto simp: init_eq split: option.splits)

lemma init_events:
  "events (snd (init col env hosts_arg username_arg password_arg w)) =
     events w @ [Construct (init_hosts env hosts_arg)
                   (init_username env username_arg, init_password env password_arg)]"
  by (simp add: init_eq)

lemma constructions_snoc:
  "constructions (evs @ [ev]) = (if is_Call ev then constructions evs else Suc (constructions evs))"
  by (simp add: constructions_def)

lemma search_result:
  "fst (search col self index query w) =
     (case on_call col (events w) (client self) (Api_search index query) of
        Returns r \<Rightarrow> Inr r
      | Raises e \<Rightarrow>
          if isinstance_Exception e
          then (case str e of Inl e' \<Rightarrow> Inl e' | Inr s \<Rightarrow> Inr [(''error'', PStr s)])
          else Inl e)"
  by (simp add: search_def client_call_def events_logger error_mapping_def Let_def
      split: outcome.splits sum.splits)

lemma index_document_result:
  "fst (index_document col self index document doc_id w) =
     (case on_call col (events w) (client self) (Api_index index doc_id document) of
        Returns r \<Rightarrow> Inr r
      | Raises e \<Rightarrow>
          if isinstance_Exception e
          then (case str e of Inl e' \<Rightarrow> Inl e' | Inr s \<Rightarrow> Inr [(''error'', PStr s)])
          else Inl e)"
  by (simp add: index_document_def client_call_def events_logger error_mapping_def Let_def
      split: outcome.splits sum.splits)



lemma search_frame:
  "snd (search col self index query w) = (self', w') \<Longrightarrow>
     self' = self \<and> events w' = events w @ [Call (client self) (Api_search index query)]"
  by (auto simp: search_def client_call_def events_logger Let_def split: outcome.splits if_splits sum.splits)

lemma index_document_frame:
  "snd (index_document col self index document doc_id w) = (self', w') \<Longrightarrow>
     self' = self \<and>
     events w' = events w @ [Call (client self) (Api_index index doc_id document)]"
  by (auto simp: index_document_def client_call_def events_logger Let_def
      split: outcome.splits if_splits sum.splits)

lemma cluster_health_frame:
  "snd (cluster_health col self w) = (self', w') \<Longrightarrow>
     self' = self \<and> events w' = events w @ [Call (client self) Api_cluster_health]"
  by (auto simp: cluster_health_def client_call_def events_logger Let_def
      split: outcome.splits if_splits sum.splits)

lemma cluster_stats_frame:
  "snd (cluster_stats col self w) = (self', w') \<Longrightarrow>
     self' = self \<and> events w' = events w @ [Call (client self) Api_cluster_stats]"
  by (auto simp: cluster_stats_def client_call_def events_logger Let_def
      split: outcome.splits if_splits sum.splits)







section \<open>Claims\<close>

text \<open>
  C3. For every index and query, whenever the client's search call succeeds with a
  response, \<open>search\<close> returns exactly that response, unchanged.
\<close>

theorem search_pass_through:
  assumes "on_call col (events w) (client self) (Api_search index query) = Returns r"
  shows "fst (search col self index query w) = Inr r"
  using assms by (simp add: search_result)

text \<open>
  The scenario of the specification: the toolkit built with
  \<^verbatim>\<open>hosts=["http://localhost:9200"]\<close>, a stub that returns
  \<^verbatim>\<open>{"hits": {"total": 0}}\<close>, and the call
  \<^verbatim>\<open>search("docs", {"query": {"match_all": {}}})\<close>.
\<close>

theorem search_pass_through_witness:
  "on_call (stub_returning no_hits) (events local_world) (client local_toolkit)
      (Api_search ''docs'' match_all_query) = Returns no_hits \<and>
   fst (search (stub_returning no_hits) local_toolkit ''docs'' match_all_query local_world)
     = Inr [(''hits'', PDict [(''total'', PInt 0)])]"
proof -
  have h: "on_call (stub_returning no_hits) (events local_world) (client local_toolkit)
      (Api_search ''docs'' match_all_query) = Returns no_hits"
    by (simp add: stub_returning_def)
  from search_pass_through [OF h] h show ?thesis
    by (simp add: no_hits_def)
qed










text \<open>
  C5. For every index, every \<open>doc_id\<close> and every two document bodies (differing or not),
  two successive calls of \<open>index_document\<close> with the same \<open>doc_id\<close> each pass their
  arguments unchanged to the client's \<^verbatim>\<open>index\<close> method, and each returns the client's
  native response when the client succeeds; no call is dropped or merged, and the toolkit
  keeps nothing from the first call to the second.
\<close>

theorem index_document_twice:
  assumes "index_document col self index d1 doc_id w = (r1, self1, w1)"
    and "index_document col self1 index d2 doc_id w1 = (r2, self2, w2)"
  shows "self1 = self \<and> self2 = self \<and>
         events w1 = events w @ [Call (client self) (Api_index index doc_id d1)] \<and>
         events w2 = events w1 @ [Call (client self) (Api_index index doc_id d2)] \<and>
         (\<forall>a1. on_call col (events w) (client self) (Api_index index doc_id d1) = Returns a1
            \<longrightarrow> r1 = Inr a1) \<and>
         (\<forall>a2. on_call col (events w1) (client self) (Api_index index doc_id d2) = Returns a2
            \<longrightarrow> r2 = Inr a2)"
proof -
  from assms(1) have s1: "snd (index_document col self index d1 doc_id w) = (self1, w1)"
    and f1: "fst (index_document col self index d1 doc_id w) = r1"
    by simp_all
  from index_document_frame [OF s1]
  have self1: "self1 = self"
    and ev1: "events w1 = events w @ [Call (client self) (Api_index index doc_id d1)]"
    by simp_all
  from assms(2) self1
  have s2: "snd (index_document col self index d2 doc_id w1) = (self2, w2)"
    and f2: "fst (index_document col self index d2 doc_id w1) = r2"
    by simp_all
  from index_document_frame [OF s2]
  have self2: "self2 = self"
    and ev2: "events w2 = events w1 @ [Call (client self) (Api_index index doc_id d2)]"
    by simp_all
  have a: "on_call col (events w) (client self) (Api_index index doc_id d1) = Returns a1
      \<longrightarrow> r1 = Inr a1" for a1
    using f1 [symmetric] by (simp add: index_document_result)
  have b: "on_call col (events w1) (client self) (Api_index index doc_id d2) = Returns a2
      \<longrightarrow> r2 = Inr a2" for a2
    using f2 [symmetric] by (simp add: index_document_result)
  from self1 self2 ev1 ev2 a b show ?thesis by blast
qed

text \<open>
  Two writes of differing bodies under the identifier \<^verbatim>\<open>"1"\<close> against a cluster that
  answers \<^verbatim>\<open>created\<close>, then \<^verbatim>\<open>updated\<close>: both reach the client and both answers
  come back as they are.
\<close>

theorem index_document_twice_witness:
  "doc_a \<noteq> doc_b \<and>
   (let (r1, self1, w1) = index_document stub_upsert local_toolkit ''docs'' doc_a (Some ''1'')
                            local_world;
        (r2, self2, w2) = index_document stub_upsert self1 ''docs'' doc_b (Some ''1'') w1
    in r1 = Inr [(''result'', PStr ''created'')] \<and>
       r2 = Inr [(''result'', PStr ''updated'')] \<and>
       events w2 =
         [Construct [''http://localhost:9200''] (None, None),
          Call (client local_toolkit) (Api_index ''docs'' (Some ''1'') doc_a),
          Call (client local_toolkit) (Api_index ''docs'' (Some ''1'') doc_b)])"
proof -
  obtain r1 self1 w1 where
    c1: "index_document stub_upsert local_toolkit ''docs'' doc_a (Some ''1'') local_world
           = (r1, self1, w1)"
    by (cases "index_document stub_upsert local_toolkit ''docs'' doc_a (Some ''1'') local_world")
  obtain r2 self2 w2 where
    c2: "index_document stub_upsert self1 ''docs'' doc_b (Some ''1'') w1 = (r2, self2, w2)"
    by (cases "index_document stub_upsert self1 ''docs'' doc_b (Some ''1'') w1")
  from index_document_twice [OF c1 c2]
  have ev1: "events w1 = events local_world @
               [Call (client local_toolkit) (Api_index ''docs'' (Some ''1'') doc_a)]"
    and ev2: "events w2 = events w1 @
               [Call (client local_toolkit) (Api_index ''docs'' (Some ''1'') doc_b)]"
    and ok1: "\<And>a1. on_call stub_upsert (events local_world) (client local_toolkit)
                (Api_index ''docs'' (Some ''1'') doc_a) = Returns a1 \<Longrightarrow> r1 = Inr a1"
    and ok2: "\<And>a2. on_call stub_upsert (events w1) (client local_toolkit)
                (Api_index ''docs'' (Some ''1'') doc_b) = Returns a2 \<Longrightarrow> r2 = Inr a2"
    by blast+
  have "on_call stub_upsert (events local_world) (client local_toolkit)
          (Api_index ''docs'' (Some ''1'') doc_a) = Returns [(''result'', PStr ''created'')]"
    by (simp add: stub_upsert_def local_world_def)
  from ok1 [OF this] have r1: "r1 = Inr [(''result'', PStr ''created'')]" .
  have "on_call stub_upsert (events w1) (client local_toolkit)
          (Api_index ''docs'' (Some ''1'') doc_b) = Returns [(''result'', PStr ''updated'')]"
    by (simp add: stub_upsert_def ev1)
  from ok2 [OF this] have r2: "r2 = Inr [(''result'', PStr ''updated'')]" .
  have ne: "doc_a \<noteq> doc_b"
    by (simp add: doc_a_def doc_b_def)
  from ev1 ev2 have ev:
    "events w2 =
       [Construct [''http://localhost:9200''] (None, None),
        Call (client local_toolkit) (Api_index ''docs'' (Some ''1'') doc_a),
        Call (client local_toolkit) (Api_index ''docs'' (Some ''1'') doc_b)]"
    by (simp add: local_world_def)
  from ne r1 r2 ev show ?thesis
    by (simp add: c1 c2)
qed

text \<open>
  C6. For every toolkit and whatever has happened before, \<open>get_tools\<close> returns exactly
  four descriptors, one per public operation, named \<^verbatim>\<open>search\<close>,
  \<^verbatim>\<open>index_document\<close>, \<^verbatim>\<open>cluster_health\<close>, \<^verbatim>\<open>cluster_stats\<close> in that order and
  bound to the toolkit; it changes neither the toolkit nor the world.
\<close>

theorem get_tools_descriptors:
  "length (fst (get_tools self w)) = 4 \<and>
   map ft_name (fst (get_tools self w))
     = [''search'', ''index_document'', ''cluster_health'', ''cluster_stats''] \<and>
   map ft_func (fst (get_tools self w))
     = [\<lparr>bm_self = self, bm_func = M_search\<rparr>,
        \<lparr>bm_self = self, bm_func = M_index_document\<rparr>,
        \<lparr>bm_self = self, bm_func = M_cluster_health\<rparr>,
        \<lparr>bm_self = self, bm_func = M_cluster_stats\<rparr>] \<and>
   snd (get_tools self w) = (self, w)"
  by (simp add: get_tools_def FunctionTool_def)

text \<open>
  C7. Constructing the toolkit with no arguments while \<^verbatim>\<open>ELASTICSEARCH_HOST\<close>,
  \<^verbatim>\<open>ELASTICSEARCH_USERNAME\<close> and \<^verbatim>\<open>ELASTICSEARCH_PASSWORD\<close> are unset resolves
  \<open>hosts\<close> to \<^verbatim>\<open>["https://localhost:9200"]\<close> and \<open>username\<close> and \<open>password\<close> to
  \<^verbatim>\<open>None\<close>: the client's constructor is called with these values, and the toolkit
  it yields holds them.
\<close>

theorem init_defaults:
  assumes "env ''ELASTICSEARCH_HOST'' = None"
    and "env ''ELASTICSEARCH_USERNAME'' = None"
    and "env ''ELASTICSEARCH_PASSWORD'' = None"
  shows "init col env None None None w =
     ((case on_construct col (events w) [''https://localhost:9200''] (None, None) of
         Some e \<Rightarrow> Inl e
       | None \<Rightarrow>
           Inr \<lparr>hosts = [''https://localhost:9200''], username = None, password = None,
                client = \<lparr>es_hosts = [''https://localhost:9200''],
                           es_http_auth = (None, None)\<rparr>\<rparr>),
      w\<lparr>events := events w @ [Construct [''https://localhost:9200''] (None, None)]\<rparr>)"
  using assms
  by (simp add: init_eq init_hosts_def init_username_def init_password_def getenv_def
      getenv_default_def split: option.splits)

theorem init_defaults_witness:
  "(Map.empty :: env) ''ELASTICSEARCH_HOST'' = None \<and>
   (Map.empty :: env) ''ELASTICSEARCH_USERNAME'' = None \<and>
   (Map.empty :: env) ''ELASTICSEARCH_PASSWORD'' = None \<and>
   init (stub_returning []) Map.empty None None None world0 =
     (Inr \<lparr>hosts = [''https://localhost:9200''], username = None, password = None,
           client = \<lparr>es_hosts = [''https://localhost:9200''], es_http_auth = (None, None)\<rparr>\<rparr>,
      \<lparr>events = [Construct [''https://localhost:9200''] (None, None)], logged = []\<rparr>)"
  using init_defaults [of Map.empty "stub_returning []" world0]
  by (simp add: stub_returning_def world0_def)

text \<open>
  C8. At construction, for each of \<open>hosts\<close>, \<open>username\<close> and \<open>password\<close>, an argument
  that is given and not empty is used whatever the environment holds; an argument that
  is absent or empty gives way to the environment variable
  (\<^verbatim>\<open>ELASTICSEARCH_HOST\<close>, \<^verbatim>\<open>ELASTICSEARCH_USERNAME\<close>,
  \<^verbatim>\<open>ELASTICSEARCH_PASSWORD\<close>); and \<open>hosts\<close> falls back to the built-in URL when
  the variable is unset as well.
\<close>

theorem init_precedence:
  assumes "fst (init col env hosts_arg username_arg password_arg w) = Inr tk"
  shows
    "(\<forall>hs. hosts_arg = Some hs \<and> hs \<noteq> [] \<longrightarrow> hosts tk = hs) \<and>
     (hosts_arg = None \<or> hosts_arg = Some [] \<longrightarrow>
        hosts tk = [case env ''ELASTICSEARCH_HOST'' of
                      Some v \<Rightarrow> v
                    | None \<Rightarrow> ''https://localhost:9200'']) \<and>
     (\<forall>u. username_arg = Some u \<and> u \<noteq> [] \<longrightarrow> username tk = Some u) \<and>
     (username_arg = None \<or> username_arg = Some [] \<longrightarrow>
        username tk = env ''ELASTICSEARCH_USERNAME'') \<and>
     (\<forall>p. password_arg = Some p \<and> p \<noteq> [] \<longrightarrow> password tk = Some p) \<and>
     (password_arg = None \<or> password_arg = Some [] \<longrightarrow>
        password tk = env ''ELASTICSEARCH_PASSWORD'')"
proof -
  have h: "(\<forall>hs. hosts_arg = Some hs \<and> hs \<noteq> [] \<longrightarrow> init_hosts env hosts_arg = hs) \<and>
     (hosts_arg = None \<or> hosts_arg = Some [] \<longrightarrow>
        init_hosts env hosts_arg = [case env ''ELASTICSEARCH_HOST'' of
                      Some v \<Rightarrow> v
                    | None \<Rightarrow> ''https://localhost:9200''])"
    by (auto simp: init_hosts_def getenv_default_def split: option.splits list.splits)
  have u: "(\<forall>u. username_arg = Some u \<and> u \<noteq> [] \<longrightarrow> init_username env username_arg = Some u) \<and>
     (username_arg = None \<or> username_arg = Some [] \<longrightarrow>
        init_username env username_arg = env ''ELASTICSEARCH_USERNAME'')"
    by (auto simp: init_username_def getenv_def split: option.splits list.splits)
  have p: "(\<forall>p. password_arg = Some p \<and> p \<noteq> [] \<longrightarrow> init_password env password_arg = Some p) \<and>
     (password_arg = None \<or> password_arg = Some [] \<longrightarrow>
        init_password env password_arg = env ''ELASTICSEARCH_PASSWORD'')"
    by (auto simp: init_password_def getenv_def split: option.splits list.splits)
  from h u p show ?thesis
    by (simp only: init_fields(1-3) [OF assms]) blast
qed

text \<open>
  Three constructions. With every variable set, explicit arguments win, and
  \<^verbatim>\<open>hosts=["http://a:9200"]\<close> ignores \<^verbatim>\<open>ELASTICSEARCH_HOST\<close>; absent or empty
  arguments take the variables' values; with nothing set, \<open>hosts\<close> is the built-in URL.
\<close>

theorem init_precedence_witness:
  "fst (init (stub_returning []) env_set (Some [''http://a:9200'']) (Some ''alice'')
          (Some ''secret'') world0)
     = Inr \<lparr>hosts = [''http://a:9200''], username = Some ''alice'', password = Some ''secret'',
            client = \<lparr>es_hosts = [''http://a:9200''],
                       es_http_auth = (Some ''alice'', Some ''secret'')\<rparr>\<rparr> \<and>
   fst (init (stub_returning []) env_set None (Some []) None world0)
     = Inr \<lparr>hosts = [''http://env:9200''], username = Some ''elastic'',
            password = Some ''changeme'',
            client = \<lparr>es_hosts = [''http://env:9200''],
                       es_http_auth = (Some ''elastic'', Some ''changeme'')\<rparr>\<rparr> \<and>
   fst (init (stub_returning []) Map.empty (Some []) None (Some []) world0)
     = Inr \<lparr>hosts = [''https://localhost:9200''], username = None, password = None,
            client = \<lparr>es_hosts = [''https://localhost:9200''],
                       es_http_auth = (None, None)\<rparr>\<rparr>"
proof -
  let ?A = "init (stub_returning []) env_set (Some [''http://a:9200'']) (Some ''alice'')
              (Some ''secret'') world0"
  let ?B = "init (stub_returning []) env_set None (Some []) None world0"
  let ?C = "init (stub_returning []) Map.empty (Some []) None (Some []) world0"
  have ok: "on_construct (stub_returning []) past hs auth = None" for past hs auth
    by (simp add: stub_returning_def)
  obtain tkA where a: "fst ?A = Inr tkA"
    by (simp add: init_eq ok)
  obtain tkB where b: "fst ?B = Inr tkB"
    by (simp add: init_eq ok)
  obtain tkC where c: "fst ?C = Inr tkC"
    by (simp add: init_eq ok)
  from init_precedence [OF a]
  have fa: "hosts tkA = [''http://a:9200'']" "username tkA = Some ''alice''"
    "password tkA = Some ''secret''"
    by simp_all
  from init_precedence [OF b]
  have fb: "hosts tkB = [''http://env:9200'']" "username tkB = Some ''elastic''"
    "password tkB = Some ''changeme''"
    by (simp_all add: env_set_def)
  from init_precedence [OF c]
  have fc: "hosts tkC = [''https://localhost:9200'']" "username tkC = None"
    "password tkC = None"
    by simp_all
  have ra: "tkA = \<lparr>hosts = [''http://a:9200''], username = Some ''alice'',
      password = Some ''secret'',
      client = \<lparr>es_hosts = [''http://a:9200''],
                 es_http_auth = (Some ''alice'', Some ''secret'')\<rparr>\<rparr>"
    using fa init_fields(4) [OF a] by (cases tkA) simp
  have rb: "tkB = \<lparr>hosts = [''http://env:9200''], username = Some ''elastic'',
      password = Some ''changeme'',
      client = \<lparr>es_hosts = [''http://env:9200''],
                 es_http_auth = (Some ''elastic'', Some ''changeme'')\<rparr>\<rparr>"
    using fb init_fields(4) [OF b] by (cases tkB) simp
  have rc: "tkC = \<lparr>hosts = [''https://localhost:9200''], username = None, password = None,
      client = \<lparr>es_hosts = [''https://localhost:9200''],
                 es_http_auth = (None, None)\<rparr>\<rparr>"
    using fc init_fields(4) [OF c] by (cases tkC) simp
  from a b c ra rb rc show ?thesis
    by simp
qed

text \<open>
  C9. Each of \<open>search\<close>, \<open>index_document\<close>, \<open>cluster_health\<close>, \<open>cluster_stats\<close> and
  \<open>get_tools\<close> gives back the toolkit it was given, with \<open>hosts\<close>, \<open>username\<close>,
  \<open>password\<close> and \<open>client\<close> as they were. The constructor calls the client's
  constructor exactly once; the four operations call a method of the toolkit's own
  client and never the constructor, and \<open>get_tools\<close> calls nothing.
\<close>

theorem operations_keep_toolkit:
  "fst (snd (search col self index query w)) = self \<and>
   events (snd (snd (search col self index query w)))
     = events w @ [Call (client self) (Api_search index query)] \<and>
   fst (snd (index_document col self index document doc_id w)) = self \<and>
   events (snd (snd (index_document col self index document doc_id w)))
     = events w @ [Call (client self) (Api_index index doc_id document)] \<and>
   fst (snd (cluster_health col self w)) = self \<and>
   events (snd (snd (cluster_health col self w)))
     = events w @ [Call (client self) Api_cluster_health] \<and>
   fst (snd (cluster_stats col self w)) = self \<and>
   events (snd (snd (cluster_stats col self w)))
     = events w @ [Call (client self) Api_cluster_stats] \<and>
   snd (get_tools self w) = (self, w) \<and>
   constructions (events (snd (init col env hosts_arg username_arg password_arg w)))
     = Suc (constructions (events w)) \<and>
   constructions (events (snd (snd (search col self index query w))))
     = constructions (events w) \<and>
   constructions (events (snd (snd (index_document col self index document doc_id w))))
     = constructions (events w) \<and>
   constructions (events (snd (snd (cluster_health col self w))))
     = constructions (events w) \<and>
   constructions (events (snd (snd (cluster_stats col self w))))
     = constructions (events w)"
proof -
  have s: "fst (snd (search col self index query w)) = self \<and>
      events (snd (snd (search col self index query w)))
        = events w @ [Call (client self) (Api_search index query)]"
    using search_frame [of col self index query w] by (simp add: prod_eq_iff)
  have i: "fst (snd (index_document col self index document doc_id w)) = self \<and>
      events (snd (snd (index_document col self index document doc_id w)))
        = events w @ [Call (client self) (Api_index index doc_id document)]"
    using index_document_frame [of col self index document doc_id w]
    by (simp add: prod_eq_iff)
  have h: "fst (snd (cluster_health col self w)) = self \<and>
      events (snd (snd (cluster_health col self w)))
        = events w @ [Call (client self) Api_cluster_health]"
    using cluster_health_frame [of col self w] by (simp add: prod_eq_iff)
  have t: "fst (snd (cluster_stats col self w)) = self \<and>
      events (snd (snd (cluster_stats col self w)))
        = events w @ [Call (client self) Api_cluster_stats]"
    using cluster_stats_frame [of col self w] by (simp add: prod_eq_iff)
  have g: "snd (get_tools self w) = (self, w)"
    by (simp add: get_tools_def)
  have c: "constructions (events (snd (init col env hosts_arg username_arg password_arg w)))
      = Suc (constructions (events w))"
    by (simp add: init_events constructions_snoc)
  from s i h t g c show ?thesis
    by (simp add: constructions_snoc)
qed

text \<open>
  C10. For every combination of arguments and environment, the constructor passes the
  pair of the resolved username and password as \<^verbatim>\<open>http_auth\<close> to the client's
  constructor, and the client of a constructed toolkit holds that pair; when both resolve
  to \<^verbatim>\<open>None\<close> the pair \<^verbatim>\<open>(None, None)\<close> is passed all the same.
\<close>

theorem init_passes_http_auth:
  "events (snd (init col env hosts_arg username_arg password_arg w)) =
     events w @ [Construct (init_hosts env hosts_arg)
                   (init_username env username_arg, init_password env password_arg)] \<and>
   (\<forall>tk. fst (init col env hosts_arg username_arg password_arg w) = Inr tk \<longrightarrow>
      es_http_auth (client tk) = (username tk, password tk)) \<and>
   (init_username env username_arg = None \<and> init_password env password_arg = None \<longrightarrow>
      events (snd (init col env hosts_arg username_arg password_arg w)) =
        events w @ [Construct (init_hosts env hosts_arg) (None, None)])"
proof -
  have "es_http_auth (client tk) = (username tk, password tk)"
    if "fst (init col env hosts_arg username_arg password_arg w) = Inr tk" for tk
    using init_fields(4) [OF that] by simp
  then show ?thesis
    by (simp add: init_events)
qed

text \<open>Construction without credentials in an empty environment.\<close>

theorem init_passes_http_auth_witness:
  "init_username Map.empty None = None \<and> init_password Map.empty None = None \<and>
   events (snd (init (stub_returning []) Map.empty None None None world0))
     = [Construct [''https://localhost:9200''] (None, None)] \<and>
   (\<exists>tk. fst (init (stub_returning []) Map.empty None None None world0) = Inr tk \<and>
      es_http_auth (client tk) = (None, None))"
proof -
  have u: "init_username Map.empty None = None"
    by (simp add: init_username_def getenv_def)
  have p: "init_password Map.empty None = None"
    by (simp add: init_password_def getenv_def)
  have h: "init_hosts Map.empty None = [''https://localhost:9200'']"
    by (simp add: init_hosts_def getenv_default_def)
  obtain tk where tk: "fst (init (stub_returning []) Map.empty None None None world0) = Inr tk"
    by (simp add: init_eq stub_returning_def)
  note t = init_passes_http_auth [of "stub_returning []" Map.empty None None None world0]
  from t u p h have ev:
    "events (snd (init (stub_returning []) Map.empty None None None world0))
       = [Construct [''https://localhost:9200''] (None, None)]"
    by (simp add: world0_def)
  from t tk have "es_http_auth (client tk) = (username tk, password tk)"
    by blast
  with init_fields(2,3) [OF tk] u p have "es_http_auth (client tk) = (None, None)"
    by simp
  with u p ev tk show ?thesis
    by blast
qed

end
